theory Spec2Isabelle
  imports Complex_Main "HOL-Library.Word"
begin

section \<open>JavaScript strings\<close>

text \<open>
  A JavaScript string is a sequence of UTF-16 code units. The source's string literals are
  ASCII; \<open>lit\<close> embeds such a literal, one code unit per character.
\<close>

type_synonym jsstring = "16 word list"

definition lit :: "string \<Rightarrow> jsstring" where
  "lit cs = map of_char cs"

text \<open>
  \<^verbatim>\<open>String.prototype.trim\<close> strips WhiteSpace and LineTerminator code points from both ends:
  TAB, LF, VT, FF, CR, SP, NBSP, the Unicode space separators and ZWNBSP. All of them are
  single code units.
\<close>

definition is_js_whitespace :: "16 word \<Rightarrow> bool" where
  "is_js_whitespace c \<longleftrightarrow>
     c \<in> set [0x0009, 0x000A, 0x000B, 0x000C, 0x000D, 0x0020, 0x00A0, 0x1680,
               0x2000, 0x2001, 0x2002, 0x2003, 0x2004, 0x2005, 0x2006, 0x2007,
               0x2008, 0x2009, 0x200A, 0x2028, 0x2029, 0x202F, 0x205F, 0x3000, 0xFEFF]"

definition trim :: "jsstring \<Rightarrow> jsstring" where
  "trim s = rev (dropWhile is_js_whitespace (rev (dropWhile is_js_whitespace s)))"

text \<open>Truthiness of a string value: only the empty string is falsy.\<close>

definition truthy_str :: "jsstring \<Rightarrow> bool" where
  "truthy_str s \<longleftrightarrow> s \<noteq> []"

text \<open>
  \<^verbatim>\<open>a || b\<close> on an optional string: \<open>None\<close> is \<^verbatim>\<open>undefined\<close>, and both \<^verbatim>\<open>undefined\<close>
  and the empty string are falsy.
\<close>

definition or_default :: "jsstring option \<Rightarrow> jsstring \<Rightarrow> jsstring" where
  "or_default a b = (case a of None \<Rightarrow> b | Some s \<Rightarrow> if truthy_str s then s else b)"

text \<open>
  \<^verbatim>\<open>Number.prototype.toString\<close> on an integer: the decimal digits, most significant first,
  after a minus sign for a negative number. (Exponent notation starts at \<open>10^21\<close>, far
  outside the range of \<^verbatim>\<open>Date.now()\<close>.)
\<close>

definition digit_unit :: "nat \<Rightarrow> 16 word" where
  "digit_unit d = of_nat (48 + d)"

function digits :: "nat \<Rightarrow> jsstring" where
  "digits n = (if n < 10 then [digit_unit n] else digits (n div 10) @ [digit_unit (n mod 10)])"
  by pat_completeness auto
termination
  by (relation "measure id") auto

declare digits.simps [simp del]

definition toString :: "int \<Rightarrow> jsstring" where
  "toString i = (if i < 0 then 0x002D # digits (nat (- i)) else digits (nat i))"

section \<open>The chat hook: \<^verbatim>\<open>useChat\<close>\<close>

subsection \<open>Data\<close>

record source =
  filename :: jsstring
  url :: "jsstring option"
  presignedUrl :: "jsstring option"

datatype role = User | Assistant

text \<open>
  The optional properties an \<^verbatim>\<open>addMessage\<close> caller spreads into the message. \<open>None\<close> is a
  property that is missing or \<^verbatim>\<open>undefined\<close>. Numbers are modelled as rationals: the rounding
  of IEEE doubles is left out.
\<close>

record metadata =
  responseTime :: "rat option"
  queryType :: "jsstring option"
  msg_sources :: "source list option"
  isError :: "bool option"

record message = metadata +
  msg_id :: rat
  msg_role :: role
  content :: jsstring
  timestamp :: int

text \<open>
  The body of a 2xx reply of \<^verbatim>\<open>POST /chat\<close>, as \<^verbatim>\<open>sendMessage\<close> reads it: an object
  with the properties of the API contract. \<open>resp_success\<close> is the truthiness of its
  \<^verbatim>\<open>success\<close> property.
\<close>

record payload =
  resp_success :: bool
  resp_response :: jsstring
  resp_responseTime :: "rat option"
  resp_queryType :: "jsstring option"
  resp_sources :: "source list option"
  resp_error :: "jsstring option"

text \<open>The five \<^verbatim>\<open>useState\<close> cells of the hook.\<close>

record chat_state =
  messages :: "message list"
  isLoading :: bool
  error :: "jsstring option"
  sources :: "source list"
  sessionId :: jsstring

text \<open>
  What one \<^verbatim>\<open>addMessage\<close> call reads from its environment: \<^verbatim>\<open>Date.now()\<close>,
  \<^verbatim>\<open>Math.random()\<close> and \<^verbatim>\<open>new Date()\<close>.
\<close>

record stamp =
  date_now :: int
  math_random :: rat
  new_date :: int

subsection \<open>Operations\<close>

definition generateSessionId :: "int \<Rightarrow> jsstring" where
  "generateSessionId now = toString now"

definition initial_state :: "int \<Rightarrow> chat_state" where
  "initial_state now =
     \<lparr>messages = [], isLoading = False, error = None, sources = [],
      sessionId = generateSessionId now\<rparr>"

definition no_metadata :: metadata where
  "no_metadata = \<lparr>responseTime = None, queryType = None, msg_sources = None, isError = None\<rparr>"

definition newMessage :: "role \<Rightarrow> jsstring \<Rightarrow> metadata \<Rightarrow> stamp \<Rightarrow> message" where
  "newMessage r c md st =
     \<lparr>responseTime = responseTime md, queryType = queryType md,
      msg_sources = msg_sources md, isError = isError md,
      msg_id = of_int (date_now st) + math_random st, msg_role = r, content = c,
      timestamp = new_date st\<rparr>"

definition addMessage :: "role \<Rightarrow> jsstring \<Rightarrow> metadata \<Rightarrow> stamp \<Rightarrow> chat_state \<Rightarrow> chat_state" where
  "addMessage r c md st s = s\<lparr>messages := messages s @ [newMessage r c md st]\<rparr>"

definition apology :: jsstring where
  "apology = lit ''I apologize, but I encountered an error. Please try again or contact the school directly for assistance.''"

definition or_empty :: "source list option \<Rightarrow> source list" where
  "or_empty xs = (case xs of None \<Rightarrow> [] | Some ys \<Rightarrow> ys)"

text \<open>
  The \<^verbatim>\<open>sendMessage\<close> callback closes over \<^verbatim>\<open>isLoading\<close> and \<^verbatim>\<open>sessionId\<close>: it reads the
  values of the render that created it, not the state at the time of the call. A new
  callback is created when either value changes (the dependency list), but a reference
  obtained earlier keeps the old values. \<open>render s\<close> is what a callback created by the
  render of state \<open>s\<close> has captured.
\<close>

record captured =
  cap_isLoading :: bool
  cap_sessionId :: jsstring

definition render :: "chat_state \<Rightarrow> captured" where
  "render s = \<lparr>cap_isLoading = isLoading s, cap_sessionId = sessionId s\<rparr>"

text \<open>
  \<^verbatim>\<open>sendMessage\<close> up to its \<^verbatim>\<open>await\<close>, for a callback that has captured \<open>c\<close>, called in
  state \<open>s\<close>. The guard and the gateway call read the captured values; the setters act on
  the state. The result is the call made to \<^verbatim>\<open>chatService.sendMessage\<close> (its two
  arguments), or \<open>None\<close> when the guard returns and no call is made, together with the
  state.
\<close>

definition sendMessage_begin ::
  "captured \<Rightarrow> jsstring \<Rightarrow> stamp \<Rightarrow> chat_state \<Rightarrow> (jsstring \<times> jsstring) option \<times> chat_state" where
  "sendMessage_begin c msg st s =
     (if \<not> truthy_str (trim msg) \<or> cap_isLoading c \<or> \<not> truthy_str (cap_sessionId c)
      then (None, s)
      else
        let s1 = s\<lparr>error := None\<rparr>;
            s2 = addMessage User msg no_metadata st s1;
            s3 = s2\<lparr>isLoading := True\<rparr>
        in (Some (msg, cap_sessionId c), s3))"

text \<open>
  The body of the \<^verbatim>\<open>try\<close>: \<open>Inl e\<close> is an exception with message \<open>e\<close>, either the
  one the gateway call rejected with or the one thrown for a reply whose \<^verbatim>\<open>success\<close> is falsy.
\<close>

definition try_block :: "jsstring + payload \<Rightarrow> stamp \<Rightarrow> chat_state \<Rightarrow> jsstring + chat_state" where
  "try_block outcome st s =
     (case outcome of
        Inl e \<Rightarrow> Inl e
      | Inr response \<Rightarrow>
          if resp_success response then
            let s1 = addMessage Assistant (resp_response response)
                       \<lparr>responseTime = resp_responseTime response,
                        queryType = resp_queryType response,
                        msg_sources = Some (or_empty (resp_sources response)),
                        isError = None\<rparr> st s
            in Inr (s1\<lparr>sources := or_empty (resp_sources response)\<rparr>)
          else Inl (or_default (resp_error response) (lit ''Failed to get response'')))"

text \<open>
  \<^verbatim>\<open>sendMessage\<close> from the moment the gateway call settles: the \<^verbatim>\<open>try\<close> body, the
  \<^verbatim>\<open>catch\<close> and the \<^verbatim>\<open>finally\<close>. Every write is a setter on the current state.
\<close>

definition sendMessage_resume :: "jsstring + payload \<Rightarrow> stamp \<Rightarrow> chat_state \<Rightarrow> chat_state" where
  "sendMessage_resume outcome st s =
     (let s' = (case try_block outcome st s of
                  Inr s1 \<Rightarrow> s1
                | Inl e \<Rightarrow>
                    addMessage Assistant apology
                      \<lparr>responseTime = None, queryType = None, msg_sources = None,
                       isError = Some True\<rparr> st (s\<lparr>error := Some e\<rparr>))
      in s'\<lparr>isLoading := False\<rparr>)"

text \<open>
  A send that runs to completion with nothing in between: \<open>c\<close> is what the callback has
  captured, \<open>gw\<close> is \<^verbatim>\<open>chatService.sendMessage\<close>, \<open>st1\<close> and \<open>st2\<close> are the environment
  reads of the two \<^verbatim>\<open>addMessage\<close> calls.
\<close>

definition sendMessage ::
  "captured \<Rightarrow> (jsstring \<Rightarrow> jsstring \<Rightarrow> jsstring + payload) \<Rightarrow> jsstring \<Rightarrow> stamp \<Rightarrow> stamp \<Rightarrow>
     chat_state \<Rightarrow> chat_state" where
  "sendMessage c gw msg st1 st2 s =
     (case sendMessage_begin c msg st1 s of
        (None, s') \<Rightarrow> s'
      | (Some (m, sid), s') \<Rightarrow> sendMessage_resume (gw m sid) st2 s')"

definition clearChat :: "int \<Rightarrow> chat_state \<Rightarrow> chat_state" where
  "clearChat now s =
     s\<lparr>messages := [], sources := [], error := None, sessionId := generateSessionId now\<rparr>"

text \<open>
  \<^verbatim>\<open>msg.responseTime\<close> as a condition: \<^verbatim>\<open>undefined\<close> and \<open>0\<close> are falsy. The filter of
  \<^verbatim>\<open>getAverageResponseTime\<close> therefore keeps only messages whose \<open>responseTime\<close> is
  \<open>Some\<close> number, and the \<^verbatim>\<open>map\<close> after it reads that number. The callback closes over
  \<^verbatim>\<open>messages\<close>: its argument is the state of the render that created it.
\<close>

definition truthy_num :: "rat option \<Rightarrow> bool" where
  "truthy_num x = (case x of None \<Rightarrow> False | Some t \<Rightarrow> t \<noteq> 0)"

definition getAverageResponseTime :: "chat_state \<Rightarrow> rat" where
  "getAverageResponseTime s =
     (let responseTimes =
            map (\<lambda>m. the (responseTime m))
              (filter (\<lambda>m. msg_role m = Assistant \<and> truthy_num (responseTime m)) (messages s))
      in if length responseTimes = 0 then 0
         else foldl (\<lambda>sum time. sum + time) 0 responseTimes / of_nat (length responseTimes))"

text \<open>
  Sends issued one after the other, each running to completion before the next is issued
  through the callback of the render that follows. Every send comes with the gateway's
  behaviour at that moment and its environment reads.
\<close>

record send =
  send_gw :: "jsstring \<Rightarrow> jsstring \<Rightarrow> jsstring + payload"
  send_text :: jsstring
  send_stamp1 :: stamp
  send_stamp2 :: stamp

fun sends :: "send list \<Rightarrow> chat_state \<Rightarrow> chat_state" where
  "sends [] s = s"
| "sends (x # rest) s =
     sends rest
       (sendMessage (render s) (send_gw x) (send_text x) (send_stamp1 x) (send_stamp2 x) s)"

section \<open>The gateway client: \<^verbatim>\<open>apiService\<close>\<close>

subsection \<open>Credentials and the request interceptor\<close>

type_synonym headers = "jsstring \<rightharpoonup> jsstring"

text \<open>
  What \<^verbatim>\<open>fetchAuthSession\<close> gives: it throws, or it returns a session whose \<^verbatim>\<open>tokens\<close> and
  whose \<^verbatim>\<open>idToken\<close> may each be missing. \<open>idToken\<close> holds the token's \<^verbatim>\<open>toString()\<close>.
\<close>

record auth_tokens =
  idToken :: "jsstring option"

record auth_session =
  tokens :: "auth_tokens option"

datatype auth_result = AuthThrows | AuthSession auth_session

definition truthy_ostr :: "jsstring option \<Rightarrow> bool" where
  "truthy_ostr x = (case x of None \<Rightarrow> False | Some s \<Rightarrow> truthy_str s)"

definition content_type_json :: headers where
  "content_type_json = [lit ''Content-Type'' \<mapsto> lit ''application/json'']"

definition getAuthHeaders :: "auth_result \<Rightarrow> headers" where
  "getAuthHeaders r =
     (case r of
        AuthThrows \<Rightarrow> content_type_json
      | AuthSession session \<Rightarrow>
          let token = (case tokens session of None \<Rightarrow> None | Some t \<Rightarrow> idToken t)
          in if truthy_ostr token
             then content_type_json(lit ''Authorization'' \<mapsto> lit ''Bearer '' @ the token)
             else content_type_json)"

datatype http_method = GET | POST

record chat_body =
  body_message :: jsstring
  body_sessionId :: jsstring

record 'b request_config =
  cfg_baseURL :: jsstring
  cfg_timeout :: nat
  cfg_method :: http_method
  cfg_url :: jsstring
  cfg_headers :: headers
  cfg_data :: 'b

text \<open>The fulfilled handler of the request interceptor; the object spread is \<open>++\<close>.\<close>

definition request_interceptor :: "auth_result \<Rightarrow> 'b request_config \<Rightarrow> 'b request_config" where
  "request_interceptor r config = config\<lparr>cfg_headers := cfg_headers config ++ getAuthHeaders r\<rparr>"

subsection \<open>The response interceptor\<close>

text \<open>
  The error object the HTTP library rejects with, as the handler reads it: \<^verbatim>\<open>code\<close>,
  \<^verbatim>\<open>response\<close> (its \<^verbatim>\<open>status\<close> and \<^verbatim>\<open>data?.error\<close>) and whether \<^verbatim>\<open>request\<close> is set.
  The library signals an exceeded \<^verbatim>\<open>timeout\<close> by the code \<^verbatim>\<open>ECONNABORTED\<close>.
\<close>

record error_response =
  status :: int
  data_error :: "jsstring option"

record axios_error =
  err_code :: "jsstring option"
  err_response :: "error_response option"
  err_request :: bool

text \<open>The rejected handler of the response interceptor: the message of the error it throws.\<close>

definition response_interceptor :: "axios_error \<Rightarrow> jsstring" where
  "response_interceptor e =
     (if err_code e = Some (lit ''ECONNABORTED'') then lit ''Request timeout - please try again''
      else case err_response e of
        Some r \<Rightarrow>
          if status r = 401 then lit ''Authentication failed - please sign in again''
          else if status r = 403 then lit ''Access forbidden - insufficient permissions''
          else or_default (data_error r) (lit ''Server error occurred'')
      | None \<Rightarrow>
          if err_request e then lit ''Network error - please check your connection''
          else lit ''An unexpected error occurred'')"

subsection \<open>\<^verbatim>\<open>chatService.sendMessage\<close>\<close>

definition API_BASE_URL :: jsstring where
  "API_BASE_URL = []"

text \<open>
  The configuration of \<^verbatim>\<open>apiClient.post('/chat', ...)\<close> as it enters the request interceptor;
  \<open>h0\<close> are the header defaults of the HTTP library.
\<close>

definition post_chat :: "headers \<Rightarrow> jsstring \<Rightarrow> jsstring \<Rightarrow> chat_body request_config" where
  "post_chat h0 msg sid =
     \<lparr>cfg_baseURL = API_BASE_URL, cfg_timeout = 30000, cfg_method = POST,
      cfg_url = lit ''/chat'', cfg_headers = h0,
      cfg_data = \<lparr>body_message = trim msg, body_sessionId = sid\<rparr>\<rparr>"

text \<open>
  One exchange. \<open>auth\<close> is what the identity provider does for this request and \<open>transport\<close>
  what the network does with the request sent: \<open>Inr\<close> the body of a 2xx reply, \<open>Inl\<close> the
  library's error. The result is \<open>Inr\<close> the body returned or \<open>Inl\<close> the message of the
  error thrown.
\<close>

definition chatService_sendMessage ::
  "headers \<Rightarrow> auth_result \<Rightarrow> (chat_body request_config \<Rightarrow> axios_error + payload) \<Rightarrow>
     jsstring \<Rightarrow> jsstring \<Rightarrow> jsstring + payload" where
  "chatService_sendMessage h0 auth transport msg sid =
     (case transport (request_interceptor auth (post_chat h0 msg sid)) of
        Inl e \<Rightarrow> Inl (response_interceptor e)
      | Inr d \<Rightarrow> Inr d)"

section \<open>Vocabulary of the statements\<close>

subsection \<open>The messages a send appends\<close>

definition reply_metadata :: "payload \<Rightarrow> metadata" where
  "reply_metadata p =
     \<lparr>responseTime = resp_responseTime p, queryType = resp_queryType p,
      msg_sources = Some (or_empty (resp_sources p)), isError = None\<rparr>"

definition error_metadata :: metadata where
  "error_metadata =
     \<lparr>responseTime = None, queryType = None, msg_sources = None, isError = Some True\<rparr>"

definition user_message :: "jsstring \<Rightarrow> stamp \<Rightarrow> message" where
  "user_message msg st = newMessage User msg no_metadata st"

definition reply_message :: "payload \<Rightarrow> stamp \<Rightarrow> message" where
  "reply_message p st = newMessage Assistant (resp_response p) (reply_metadata p) st"

definition apology_message :: "stamp \<Rightarrow> message" where
  "apology_message st = newMessage Assistant apology error_metadata st"

text \<open>
  A send of a sequence is accepted when its text is non-empty after trimming, and succeeds
  under session \<open>sid\<close> when the gateway resolves with a reply whose \<^verbatim>\<open>success\<close> is truthy.
  \<open>turn\<close> is the pair of messages the specification expects of it.
\<close>

definition succeeds :: "jsstring \<Rightarrow> send \<Rightarrow> bool" where
  "succeeds sid x =
     (case send_gw x (send_text x) sid of Inl e \<Rightarrow> False | Inr p \<Rightarrow> resp_success p)"

definition turn :: "jsstring \<Rightarrow> send \<Rightarrow> message list" where
  "turn sid x =
     [user_message (send_text x) (send_stamp1 x),
      (case send_gw x (send_text x) sid of
         Inl e \<Rightarrow> apology_message (send_stamp2 x)
       | Inr p \<Rightarrow> if resp_success p then reply_message p (send_stamp2 x)
                  else apology_message (send_stamp2 x))]"

subsection \<open>The mean the specification asks for\<close>

text \<open>
  The arithmetic mean of \<^verbatim>\<open>responseTime\<close> over the assistant messages that carry one, and
  zero when none does.
\<close>

definition carried_responseTimes :: "message list \<Rightarrow> rat list" where
  "carried_responseTimes ms =
     concat (map (\<lambda>m. case responseTime m of None \<Rightarrow> [] | Some t \<Rightarrow> [t])
               (filter (\<lambda>m. msg_role m = Assistant) ms))"

definition spec_averageResponseTime :: "chat_state \<Rightarrow> rat" where
  "spec_averageResponseTime s =
     (let ts = carried_responseTimes (messages s)
      in if ts = [] then 0 else sum_list ts / of_nat (length ts))"

subsection \<open>The credential of a request\<close>

text \<open>
  A bearer credential is available when the identity provider returns a session with tokens
  whose id token is a non-empty string.
\<close>

definition credential :: "auth_result \<Rightarrow> jsstring option" where
  "credential r =
     (case r of
        AuthThrows \<Rightarrow> None
      | AuthSession session \<Rightarrow>
          (case tokens session of
             None \<Rightarrow> None
           | Some tk \<Rightarrow>
               (case idToken tk of
                  None \<Rightarrow> None
                | Some t \<Rightarrow> if t = [] then None else Some t)))"

subsection \<open>Sample values\<close>

definition stamp_a :: stamp where
  "stamp_a = \<lparr>date_now = 1700000000100, math_random = 1 / 4, new_date = 1700000000100\<rparr>"

definition stamp_b :: stamp where
  "stamp_b = \<lparr>date_now = 1700000002100, math_random = 3 / 4, new_date = 1700000002101\<rparr>"

definition handbook :: source where
  "handbook =
     \<lparr>filename = lit ''handbook.pdf'', url = Some (lit ''https://example.org/handbook.pdf''),
      presignedUrl = None\<rparr>"

definition calendar :: source where
  "calendar = \<lparr>filename = lit ''calendar.pdf'', url = None, presignedUrl = None\<rparr>"

definition idle_state :: chat_state where
  "idle_state = (initial_state 1700000000000)\<lparr>sources := [calendar]\<rparr>"

definition busy_state :: chat_state where
  "busy_state = idle_state\<lparr>isLoading := True\<rparr>"

definition hours_reply :: payload where
  "hours_reply =
     \<lparr>resp_success = True, resp_response = lit ''School starts at 8:15.'',
      resp_responseTime = Some 2, resp_queryType = Some (lit ''schedule''),
      resp_sources = Some [handbook], resp_error = None\<rparr>"

definition empty_error_reply :: payload where
  "empty_error_reply =
     \<lparr>resp_success = False, resp_response = [], resp_responseTime = None,
      resp_queryType = None, resp_sources = None, resp_error = Some []\<rparr>"

definition guardrail_reply :: payload where
  "guardrail_reply = empty_error_reply\<lparr>resp_error := Some (lit ''Guardrail violation'')\<rparr>"

definition hours_send :: send where
  "hours_send =
     \<lparr>send_gw = (\<lambda>msg sid. Inr hours_reply), send_text = lit ''hours?'',
      send_stamp1 = stamp_a, send_stamp2 = stamp_b\<rparr>"

definition lunch_reply :: payload where
  "lunch_reply =
     \<lparr>resp_success = True, resp_response = lit ''Pizza on Friday.'',
      resp_responseTime = Some 4, resp_queryType = None, resp_sources = None,
      resp_error = None\<rparr>"

definition lunch_send :: send where
  "lunch_send =
     \<lparr>send_gw = (\<lambda>msg sid. Inr lunch_reply), send_text = lit ''lunch?'',
      send_stamp1 = stamp_b, send_stamp2 = stamp_a\<rparr>"

definition pending_state :: chat_state where
  "pending_state =
     idle_state\<lparr>messages := [user_message (lit ''hours?'') stamp_a], isLoading := True\<rparr>"

definition zero_and_four :: chat_state where
  "zero_and_four =
     idle_state\<lparr>messages :=
       [user_message (lit ''hours?'') stamp_a,
        reply_message (hours_reply\<lparr>resp_responseTime := Some 0\<rparr>) stamp_b,
        user_message (lit ''lunch?'') stamp_a,
        reply_message (hours_reply\<lparr>resp_responseTime := Some 4\<rparr>) stamp_b]\<rparr>"

definition two_and_four :: chat_state where
  "two_and_four =
     idle_state\<lparr>messages :=
       [user_message (lit ''hours?'') stamp_a,
        reply_message (hours_reply\<lparr>resp_responseTime := Some 2\<rparr>) stamp_b,
        user_message (lit ''lunch?'') stamp_a,
        reply_message (hours_reply\<lparr>resp_responseTime := Some 4\<rparr>) stamp_b]\<rparr>"

definition server_error_500 :: axios_error where
  "server_error_500 =
     \<lparr>err_code = Some (lit ''ERR_BAD_RESPONSE''),
      err_response = Some \<lparr>status = 500, data_error = Some (lit ''Guardrail violation'')\<rparr>,
      err_request = True\<rparr>"

definition empty_error_500 :: axios_error where
  "empty_error_500 =
     server_error_500\<lparr>err_response := Some \<lparr>status = 500, data_error = Some []\<rparr>\<rparr>"

definition signed_in :: auth_result where
  "signed_in = AuthSession \<lparr>tokens = Some \<lparr>idToken = Some (lit ''eyJhbGciOi'')\<rparr>\<rparr>"

definition unauthorized_401 :: axios_error where
  "unauthorized_401 =
     \<lparr>err_code = Some (lit ''ERR_BAD_REQUEST''),
      err_response = Some \<lparr>status = 401, data_error = None\<rparr>, err_request = True\<rparr>"

text \<open>A server that answers a request with the sample reply only if it bears the token.\<close>

definition bearer_server :: "chat_body request_config \<Rightarrow> axios_error + payload" where
  "bearer_server config =
     (if cfg_headers config (lit ''Authorization'') = Some (lit ''Bearer eyJhbGciOi'')
      then Inr hours_reply else Inl unauthorized_401)"

text \<open>A server that answers every request that bears no credential with the sample reply.\<close>

definition open_server :: "chat_body request_config \<Rightarrow> axios_error + payload" where
  "open_server config =
     (if cfg_headers config (lit ''Authorization'') = None
      then Inr lunch_reply else Inl unauthorized_401)"

section \<open>Auxiliary facts\<close>

subsection \<open>Literals and decimal rendering\<close>

lemma unat_of_char_16: "unat (of_char c :: 16 word) = of_char c"
proof -
  have "(of_char c :: 16 word) = of_nat (of_char c)"
    by (simp add: of_nat_of_char)
  moreover have "(of_char c :: nat) < 65536"
    using nat_of_char_less_256 [of c] by linarith
  ultimately show ?thesis
    by (simp add: unat_of_nat)
qed

lemma of_char_16_eq_iff: "(of_char c :: 16 word) = of_char d \<longleftrightarrow> c = d"
proof
  assume "(of_char c :: 16 word) = of_char d"
  then have "unat (of_char c :: 16 word) = unat (of_char d :: 16 word)"
    by simp
  then have "(of_char c :: nat) = of_char d"
    by (simp only: unat_of_char_16)
  then show "c = d"
    by simp
qed simp

lemma lit_eq_iff: "lit a = lit b \<longleftrightarrow> a = b"
  unfolding lit_def by (rule inj_map_eq_map) (simp add: inj_on_def of_char_16_eq_iff)

lemma lit_Nil_iff: "lit a = [] \<longleftrightarrow> a = []"
  by (simp add: lit_def)

lemma Nil_lit_iff: "[] = lit a \<longleftrightarrow> a = []"
  by (auto simp: lit_def)

lemma unat_digit_unit: "d < 10 \<Longrightarrow> unat (digit_unit d) = 48 + d"
  unfolding digit_unit_def by (subst unat_of_nat) simp

lemma digit_unit_eq_iff:
  "a < 10 \<Longrightarrow> b < 10 \<Longrightarrow> digit_unit a = digit_unit b \<longleftrightarrow> a = b"
proof
  assume "a < 10" "b < 10" "digit_unit a = digit_unit b"
  then have "unat (digit_unit a) = unat (digit_unit b)"
    by simp
  with \<open>a < 10\<close> \<open>b < 10\<close> show "a = b"
    by (simp add: unat_digit_unit)
qed simp

lemma digit_unit_not_minus: "d < 10 \<Longrightarrow> digit_unit d \<noteq> 0x2D"
proof
  assume "d < 10" "digit_unit d = 0x2D"
  then have "unat (digit_unit d) = unat (0x2D :: 16 word)"
    by simp
  with \<open>d < 10\<close> show False
    by (simp add: unat_digit_unit)
qed

lemma digits_not_Nil: "digits n \<noteq> []"
  by (subst digits.simps) simp

lemma digits_are_digit_units: "c \<in> set (digits n) \<Longrightarrow> \<exists>d<10. c = digit_unit d"
proof (induction n rule: digits.induct)
  case (1 n)
  show ?case
  proof (cases "n < 10")
    case True
    with "1.prems" show ?thesis
      by (subst (asm) digits.simps) auto
  next
    case False
    with "1.prems" have "c \<in> set (digits (n div 10)) \<or> c = digit_unit (n mod 10)"
      by (subst (asm) digits.simps) auto
    then show ?thesis
    proof
      assume "c \<in> set (digits (n div 10))"
      with False "1.IH" show ?thesis
        by simp
    next
      assume "c = digit_unit (n mod 10)"
      moreover have "n mod 10 < 10"
        by simp
      ultimately show ?thesis
        by blast
    qed
  qed
qed

lemma digits_inj: "digits n = digits m \<Longrightarrow> n = m"
proof (induction n arbitrary: m rule: digits.induct)
  case (1 n)
  show ?case
  proof (cases "n < 10")
    case n: True
    show ?thesis
    proof (cases "m < 10")
      case True
      with n "1.prems" show ?thesis
        by (simp add: digits.simps [of n] digits.simps [of m] digit_unit_eq_iff)
    next
      case False
      with n "1.prems" have "[digit_unit n] = digits (m div 10) @ [digit_unit (m mod 10)]"
        by (simp add: digits.simps [of n] digits.simps [of m])
      then show ?thesis
        using digits_not_Nil [of "m div 10"] by auto
    qed
  next
    case n: False
    show ?thesis
    proof (cases "m < 10")
      case True
      with n "1.prems" have "digits (n div 10) @ [digit_unit (n mod 10)] = [digit_unit m]"
        by (simp add: digits.simps [of n] digits.simps [of m])
      then show ?thesis
        using digits_not_Nil [of "n div 10"] by auto
    next
      case False
      with n "1.prems" have e: "digits (n div 10) = digits (m div 10)"
        and d: "digit_unit (n mod 10) = digit_unit (m mod 10)"
        by (simp_all add: digits.simps [of n] digits.simps [of m])
      from e n "1.IH" have "n div 10 = m div 10"
        by simp
      moreover from d have "n mod 10 = m mod 10"
        by (simp add: digit_unit_eq_iff)
      ultimately show ?thesis
        by (metis div_mult_mod_eq)
    qed
  qed
qed

lemma minus_sign_not_digits: "0x2D # digits a \<noteq> digits b"
proof
  assume "0x2D # digits a = digits b"
  then have "0x2D \<in> set (digits b)"
    by (metis list.set_intros(1))
  then obtain d where "d < 10" "0x2D = digit_unit d"
    using digits_are_digit_units by blast
  then show False
    using digit_unit_not_minus [of d] by simp
qed

lemma toString_inj: "toString i = toString j \<Longrightarrow> i = j"
proof -
  assume h: "toString i = toString j"
  show ?thesis
  proof (cases "i < 0")
    case i: True
    show ?thesis
    proof (cases "j < 0")
      case True
      with i h have "digits (nat (- i)) = digits (nat (- j))"
        by (simp add: toString_def)
      then have "nat (- i) = nat (- j)"
        by (rule digits_inj)
      with i True show ?thesis
        by simp
    next
      case False
      with i h minus_sign_not_digits show ?thesis
        by (simp add: toString_def)
    qed
  next
    case i: False
    show ?thesis
    proof (cases "j < 0")
      case True
      with i h minus_sign_not_digits [of "nat (- j)" "nat i"] show ?thesis
        by (simp add: toString_def)
    next
      case False
      with i h have "digits (nat i) = digits (nat j)"
        by (simp add: toString_def)
      then have "nat i = nat j"
        by (rule digits_inj)
      with i False show ?thesis
        by simp
    qed
  qed
qed

lemma toString_not_Nil: "toString i \<noteq> []"
  by (simp add: toString_def digits_not_Nil)

subsection \<open>The steps of a send\<close>

lemma sendMessage_begin_guarded:
  "cap_isLoading c \<or> trim msg = [] \<or> cap_sessionId c = [] \<Longrightarrow>
   sendMessage_begin c msg st s = (None, s)"
  by (auto simp: sendMessage_begin_def truthy_str_def)

lemma sendMessage_begin_accepted:
  "trim msg \<noteq> [] \<Longrightarrow> \<not> cap_isLoading c \<Longrightarrow> cap_sessionId c \<noteq> [] \<Longrightarrow>
   sendMessage_begin c msg st s =
     (Some (msg, cap_sessionId c),
      s\<lparr>error := None, messages := messages s @ [user_message msg st], isLoading := True\<rparr>)"
  by (simp add: sendMessage_begin_def truthy_str_def addMessage_def user_message_def Let_def)

lemma sendMessage_resume_rejected:
  "sendMessage_resume (Inl E) st s =
     s\<lparr>error := Some E, messages := messages s @ [apology_message st], isLoading := False\<rparr>"
  by (simp add: sendMessage_resume_def try_block_def addMessage_def apology_message_def
      error_metadata_def)

lemma sendMessage_resume_success:
  "resp_success p \<Longrightarrow>
   sendMessage_resume (Inr p) st s =
     s\<lparr>messages := messages s @ [reply_message p st], sources := or_empty (resp_sources p),
       isLoading := False\<rparr>"
  by (simp add: sendMessage_resume_def try_block_def addMessage_def reply_message_def
      reply_metadata_def Let_def)

lemma sendMessage_resume_unsuccessful:
  "\<not> resp_success p \<Longrightarrow>
   sendMessage_resume (Inr p) st s =
     sendMessage_resume (Inl (or_default (resp_error p) (lit ''Failed to get response''))) st s"
  by (simp add: sendMessage_resume_def try_block_def)

lemma sendMessage_resume_idle: "\<not> isLoading (sendMessage_resume outcome st s)"
  by (simp add: sendMessage_resume_def)

lemma user_message_fields:
  "msg_role (user_message msg st) = User" "content (user_message msg st) = msg"
  "isError (user_message msg st) = None" "responseTime (user_message msg st) = None"
  "timestamp (user_message msg st) = new_date st"
  "msg_id (user_message msg st) = of_int (date_now st) + math_random st"
  by (simp_all add: user_message_def newMessage_def no_metadata_def)

lemma reply_message_fields:
  "msg_role (reply_message p st) = Assistant" "content (reply_message p st) = resp_response p"
  "responseTime (reply_message p st) = resp_responseTime p"
  "queryType (reply_message p st) = resp_queryType p"
  "msg_sources (reply_message p st) = Some (case resp_sources p of None \<Rightarrow> [] | Some S \<Rightarrow> S)"
  "isError (reply_message p st) = None" "timestamp (reply_message p st) = new_date st"
  by (simp_all add: reply_message_def reply_metadata_def newMessage_def or_empty_def)

lemma apology_message_fields:
  "msg_role (apology_message st) = Assistant" "content (apology_message st) = apology"
  "isError (apology_message st) = Some True" "responseTime (apology_message st) = None"
  "msg_sources (apology_message st) = None" "timestamp (apology_message st) = new_date st"
  by (simp_all add: apology_message_def error_metadata_def newMessage_def)

lemma sendMessage_turn:
  assumes "trim (send_text x) \<noteq> []" "\<not> isLoading s" "sessionId s \<noteq> []"
  shows "messages (sendMessage (render s) (send_gw x) (send_text x) (send_stamp1 x)
                     (send_stamp2 x) s)
           = messages s @ turn (sessionId s) x"
    and "\<not> isLoading (sendMessage (render s) (send_gw x) (send_text x) (send_stamp1 x)
                        (send_stamp2 x) s)"
    and "sessionId (sendMessage (render s) (send_gw x) (send_text x) (send_stamp1 x)
                      (send_stamp2 x) s)
           = sessionId s"
proof -
  let ?o = "send_gw x (send_text x) (sessionId s)"
  let ?s1 = "s\<lparr>error := None,
                messages := messages s @ [user_message (send_text x) (send_stamp1 x)],
                isLoading := True\<rparr>"
  let ?r = "sendMessage (render s) (send_gw x) (send_text x) (send_stamp1 x) (send_stamp2 x) s"
  have run: "?r = sendMessage_resume ?o (send_stamp2 x) ?s1"
    using assms by (simp add: sendMessage_def sendMessage_begin_accepted render_def)
  show "messages ?r = messages s @ turn (sessionId s) x"
  proof (cases ?o)
    case (Inl e)
    then show ?thesis
      by (simp add: run turn_def sendMessage_resume_rejected)
  next
    case (Inr p)
    then show ?thesis
      by (cases "resp_success p")
        (simp_all add: run turn_def sendMessage_resume_success sendMessage_resume_unsuccessful
          sendMessage_resume_rejected)
  qed
  show "\<not> isLoading ?r"
    by (simp add: run sendMessage_resume_idle)
  show "sessionId ?r = sessionId s"
    by (simp add: run sendMessage_resume_def try_block_def addMessage_def Let_def
        split: sum.splits)
qed

lemma sends_log:
  assumes "\<not> isLoading s" "sessionId s \<noteq> []" "\<forall>x\<in>set xs. trim (send_text x) \<noteq> []"
  shows "messages (sends xs s) = messages s @ concat (map (turn (sessionId s)) xs)
         \<and> \<not> isLoading (sends xs s) \<and> sessionId (sends xs s) = sessionId s"
  using assms
proof (induction xs arbitrary: s)
  case Nil
  then show ?case
    by simp
next
  case (Cons x xs)
  let ?s' = "sendMessage (render s) (send_gw x) (send_text x) (send_stamp1 x) (send_stamp2 x) s"
  from Cons.prems have x: "trim (send_text x) \<noteq> []"
    by simp
  note step = sendMessage_turn [OF x Cons.prems(1) Cons.prems(2)]
  from Cons.prems have "\<forall>y\<in>set xs. trim (send_text y) \<noteq> []"
    by simp
  with step have "messages (sends xs ?s') = messages ?s' @ concat (map (turn (sessionId ?s')) xs)
         \<and> \<not> isLoading (sends xs ?s') \<and> sessionId (sends xs ?s') = sessionId ?s'"
    using Cons.prems(2) by (intro Cons.IH) simp_all
  with step show ?case
    by simp
qed

lemma length_turn: "length (turn sid x) = 2"
  by (simp add: turn_def)

lemma length_concat_turns: "length (concat (map (turn sid) xs)) = 2 * length xs"
  by (induction xs) (simp_all add: length_turn)

lemma nth_concat_turns:
  "i < length xs \<Longrightarrow>
   concat (map (turn sid) xs) ! (2 * i) = turn sid (xs ! i) ! 0 \<and>
   concat (map (turn sid) xs) ! (2 * i + 1) = turn sid (xs ! i) ! 1"
proof (induction xs arbitrary: i)
  case Nil
  then show ?case
    by simp
next
  case (Cons x xs)
  show ?case
  proof (cases i)
    case 0
    then show ?thesis
      by (simp add: nth_append length_turn)
  next
    case (Suc j)
    with Cons.prems have "j < length xs"
      by simp
    from Cons.IH [OF this] Suc show ?thesis
      by (simp add: nth_append length_turn)
  qed
qed

lemma sample_trims:
  "trim (lit ''hours?'') \<noteq> []" "trim (lit ''lunch?'') \<noteq> []" "trim (lit ''bad input'') \<noteq> []"
  by (simp_all add: trim_def lit_def is_js_whitespace_def)

lemma idle_state_fields:
  "\<not> isLoading idle_state" "sessionId idle_state \<noteq> []" "messages idle_state = []"
  "sources idle_state = [calendar]" "error idle_state = None"
  by (simp_all add: idle_state_def initial_state_def generateSessionId_def toString_not_Nil)

lemma idle_state_sessionId: "sessionId idle_state = generateSessionId 1700000000000"
  by (simp add: idle_state_def initial_state_def)

subsection \<open>The mean\<close>

lemma foldl_plus: "foldl (\<lambda>sum time. sum + time) a xs = a + sum_list (xs :: rat list)"
  by (induction xs arbitrary: a) (simp_all add: add.assoc)

lemma nonzero_responseTimes:
  "\<forall>m\<in>set ms. msg_role m = Assistant \<longrightarrow> responseTime m \<noteq> Some 0 \<Longrightarrow>
   map (\<lambda>m. the (responseTime m))
     (filter (\<lambda>m. msg_role m = Assistant \<and> truthy_num (responseTime m)) ms)
   = carried_responseTimes ms"
  by (induction ms) (auto simp: carried_responseTimes_def truthy_num_def split: option.splits)

lemma getAverageResponseTime_mean:
  assumes "\<forall>m\<in>set (messages s). msg_role m = Assistant \<longrightarrow> responseTime m \<noteq> Some 0"
  shows "getAverageResponseTime s = spec_averageResponseTime s"
  by (simp add: getAverageResponseTime_def spec_averageResponseTime_def Let_def
      nonzero_responseTimes [OF assms] foldl_plus)

lemma getAverageResponseTime_two_and_four: "getAverageResponseTime two_and_four = 3"
  by (simp add: getAverageResponseTime_def two_and_four_def idle_state_def initial_state_def
      user_message_def reply_message_def reply_metadata_def newMessage_def hours_reply_def
      no_metadata_def truthy_num_def)

lemma getAverageResponseTime_none: "carried_responseTimes (messages s) = [] \<Longrightarrow>
  getAverageResponseTime s = 0"
proof -
  assume e: "carried_responseTimes (messages s) = []"
  have "filter (\<lambda>m. msg_role m = Assistant \<and> truthy_num (responseTime m)) ms = []"
    if "carried_responseTimes ms = []" for ms
    using that
    by (induction ms) (auto simp: carried_responseTimes_def truthy_num_def split: option.splits)
  from this [OF e] show ?thesis
    by (simp add: getAverageResponseTime_def)
qed

section \<open>The session manager\<close>

text \<open>
  C1. Sends are issued one after the other from a state that is not busy and has a session
  id; every text is non-empty after trimming and every gateway call succeeds. Then the log
  afterwards has grown by twice the number of sends and the earlier log is its unchanged
  prefix (from an empty log the length is \<open>2N\<close>). For the \<open>i\<close>-th send, the message at
  offset \<open>2i\<close> behind the earlier log has role user and the text of that send, and the
  message right after it has role assistant, is no error message, and carries the response
  text, response time and sources of that send's gateway reply. So the log alternates
  user, assistant in the order the sends were issued.
\<close>

theorem sends_alternate:
  assumes "\<not> isLoading s" and "sessionId s \<noteq> []"
    and "\<forall>x\<in>set xs. trim (send_text x) \<noteq> [] \<and> succeeds (sessionId s) x"
  shows "length (messages (sends xs s)) = length (messages s) + 2 * length xs
    \<and> take (length (messages s)) (messages (sends xs s)) = messages s
    \<and> (\<forall>i<length xs. \<exists>p.
          send_gw (xs ! i) (send_text (xs ! i)) (sessionId s) = Inr p
          \<and> msg_role (messages (sends xs s) ! (length (messages s) + 2 * i)) = User
          \<and> content (messages (sends xs s) ! (length (messages s) + 2 * i))
              = send_text (xs ! i)
          \<and> isError (messages (sends xs s) ! (length (messages s) + 2 * i)) = None
          \<and> timestamp (messages (sends xs s) ! (length (messages s) + 2 * i))
              = new_date (send_stamp1 (xs ! i))
          \<and> msg_role (messages (sends xs s) ! (length (messages s) + 2 * i + 1)) = Assistant
          \<and> content (messages (sends xs s) ! (length (messages s) + 2 * i + 1))
              = resp_response p
          \<and> responseTime (messages (sends xs s) ! (length (messages s) + 2 * i + 1))
              = resp_responseTime p
          \<and> msg_sources (messages (sends xs s) ! (length (messages s) + 2 * i + 1))
              = Some (case resp_sources p of None \<Rightarrow> [] | Some S \<Rightarrow> S)
          \<and> isError (messages (sends xs s) ! (length (messages s) + 2 * i + 1)) = None
          \<and> timestamp (messages (sends xs s) ! (length (messages s) + 2 * i + 1))
              = new_date (send_stamp2 (xs ! i)))
    \<and> messages (sends xs s) = messages s @ concat (map (turn (sessionId s)) xs)"
proof -
  let ?log = "messages (sends xs s)"
  let ?n = "length (messages s)"
  from assms have "\<forall>x\<in>set xs. trim (send_text x) \<noteq> []"
    by simp
  from sends_log [OF assms(1) assms(2) this]
  have log: "?log = messages s @ concat (map (turn (sessionId s)) xs)"
    by simp
  have len: "length ?log = ?n + 2 * length xs"
    by (simp add: log length_concat_turns)
  have pre: "take ?n ?log = messages s"
    by (simp add: log)
  have "\<exists>p. send_gw (xs ! i) (send_text (xs ! i)) (sessionId s) = Inr p
          \<and> msg_role (?log ! (?n + 2 * i)) = User
          \<and> content (?log ! (?n + 2 * i)) = send_text (xs ! i)
          \<and> isError (?log ! (?n + 2 * i)) = None
          \<and> timestamp (?log ! (?n + 2 * i)) = new_date (send_stamp1 (xs ! i))
          \<and> msg_role (?log ! (?n + 2 * i + 1)) = Assistant
          \<and> content (?log ! (?n + 2 * i + 1)) = resp_response p
          \<and> responseTime (?log ! (?n + 2 * i + 1)) = resp_responseTime p
          \<and> msg_sources (?log ! (?n + 2 * i + 1))
              = Some (case resp_sources p of None \<Rightarrow> [] | Some S \<Rightarrow> S)
          \<and> isError (?log ! (?n + 2 * i + 1)) = None
          \<and> timestamp (?log ! (?n + 2 * i + 1)) = new_date (send_stamp2 (xs ! i))"
    if i: "i < length xs" for i
  proof -
    from i assms(3) have "succeeds (sessionId s) (xs ! i)"
      by simp
    then obtain p where p: "send_gw (xs ! i) (send_text (xs ! i)) (sessionId s) = Inr p"
      and ok: "resp_success p"
      by (auto simp: succeeds_def split: sum.splits)
    have "?log ! (?n + 2 * i) = concat (map (turn (sessionId s)) xs) ! (2 * i)"
      by (simp add: log)
    with nth_concat_turns [OF i, of "sessionId s"]
    have u: "?log ! (?n + 2 * i) = user_message (send_text (xs ! i)) (send_stamp1 (xs ! i))"
      by (simp add: turn_def)
    have "?log ! (?n + 2 * i + 1) = concat (map (turn (sessionId s)) xs) ! (2 * i + 1)"
      by (simp add: log nth_append)
    with nth_concat_turns [OF i, of "sessionId s"] p ok
    have a: "?log ! (?n + 2 * i + 1) = reply_message p (send_stamp2 (xs ! i))"
      by (simp add: turn_def)
    show ?thesis
      unfolding u a using p
      by (simp add: user_message_fields reply_message_fields)
  qed
  with log len pre show ?thesis
    by blast
qed

theorem sends_alternate_witness:
  "\<not> isLoading idle_state \<and> sessionId idle_state \<noteq> []
   \<and> trim (send_text hours_send) \<noteq> [] \<and> succeeds (sessionId idle_state) hours_send
   \<and> trim (send_text lunch_send) \<noteq> [] \<and> succeeds (sessionId idle_state) lunch_send
   \<and> length (messages (sends [hours_send, lunch_send] idle_state)) = 4
   \<and> msg_role (messages (sends [hours_send, lunch_send] idle_state) ! 0) = User
   \<and> content (messages (sends [hours_send, lunch_send] idle_state) ! 0) = lit ''hours?''
   \<and> msg_role (messages (sends [hours_send, lunch_send] idle_state) ! 1) = Assistant
   \<and> content (messages (sends [hours_send, lunch_send] idle_state) ! 1)
       = lit ''School starts at 8:15.''
   \<and> msg_role (messages (sends [hours_send, lunch_send] idle_state) ! 2) = User
   \<and> content (messages (sends [hours_send, lunch_send] idle_state) ! 2) = lit ''lunch?''
   \<and> msg_role (messages (sends [hours_send, lunch_send] idle_state) ! 3) = Assistant
   \<and> content (messages (sends [hours_send, lunch_send] idle_state) ! 3)
       = lit ''Pizza on Friday.''"
proof -
  have h1: "\<not> isLoading idle_state" and h2: "sessionId idle_state \<noteq> []"
    by (simp_all add: idle_state_fields)
  have t: "trim (send_text hours_send) \<noteq> []" "trim (send_text lunch_send) \<noteq> []"
    by (simp_all add: hours_send_def lunch_send_def sample_trims)
  have g: "succeeds (sessionId idle_state) hours_send"
    "succeeds (sessionId idle_state) lunch_send"
    by (simp_all add: hours_send_def lunch_send_def succeeds_def hours_reply_def
        lunch_reply_def)
  from t g have h3: "\<forall>x\<in>set [hours_send, lunch_send].
              trim (send_text x) \<noteq> [] \<and> succeeds (sessionId idle_state) x"
    by simp
  note T = sends_alternate [OF h1 h2 h3]
  note len = T [THEN conjunct1]
  note idx = T [THEN conjunct2, THEN conjunct2, THEN conjunct1, rule_format]
  have l0: "0 < length [hours_send, lunch_send]" and l1: "1 < length [hours_send, lunch_send]"
    by simp_all
  have e0: "length (messages idle_state) + 2 * 0 = 0"
    and e1: "length (messages idle_state) + 2 * 0 + 1 = 1"
    and e2: "length (messages idle_state) + 2 * 1 = 2"
    and e3: "length (messages idle_state) + 2 * 1 + 1 = 3"
    by (simp_all add: idle_state_fields)
  have x0: "[hours_send, lunch_send] ! 0 = hours_send"
    and x1: "[hours_send, lunch_send] ! 1 = lunch_send"
    by simp_all
  have r0: "send_gw hours_send (send_text hours_send) (sessionId idle_state) = Inr p
              \<longleftrightarrow> p = hours_reply" for p
    by (auto simp: hours_send_def)
  have r1: "send_gw lunch_send (send_text lunch_send) (sessionId idle_state) = Inr p
              \<longleftrightarrow> p = lunch_reply" for p
    by (auto simp: lunch_send_def)
  from idx [OF l0, unfolded e0 e1 x0 r0]
  have m0: "msg_role (messages (sends [hours_send, lunch_send] idle_state) ! 0) = User
      \<and> content (messages (sends [hours_send, lunch_send] idle_state) ! 0) = lit ''hours?''
      \<and> msg_role (messages (sends [hours_send, lunch_send] idle_state) ! 1) = Assistant
      \<and> content (messages (sends [hours_send, lunch_send] idle_state) ! 1)
          = lit ''School starts at 8:15.''"
    by (auto simp del: sends.simps simp add: hours_send_def hours_reply_def)
  from idx [OF l1, unfolded e2 e3 x1 r1]
  have m1: "msg_role (messages (sends [hours_send, lunch_send] idle_state) ! 2) = User
      \<and> content (messages (sends [hours_send, lunch_send] idle_state) ! 2) = lit ''lunch?''
      \<and> msg_role (messages (sends [hours_send, lunch_send] idle_state) ! 3) = Assistant
      \<and> content (messages (sends [hours_send, lunch_send] idle_state) ! 3)
          = lit ''Pizza on Friday.''"
    by (auto simp del: sends.simps simp add: lunch_send_def lunch_reply_def)
  from len have "length (messages (sends [hours_send, lunch_send] idle_state)) = 4"
    by (simp del: sends.simps add: idle_state_fields)
  with h1 h2 t g m0 m1 show ?thesis
    by blast
qed

text \<open>
  C2, as stated, fails: the guard of \<^verbatim>\<open>sendMessage\<close> reads the busy flag its callback has
  captured, not the state. After a first send through a callback of the idle render the
  busy flag of the state is set; a second send through the same callback is not dropped:
  it makes a second gateway call and appends a second user message.
\<close>

theorem send_same_reference_counterexample:
  "sendMessage_begin (render idle_state) (lit ''hours?'') stamp_a idle_state
     = (Some (lit ''hours?'', sessionId idle_state), pending_state)
   \<and> isLoading pending_state
   \<and> fst (sendMessage_begin (render idle_state) (lit ''lunch?'') stamp_b pending_state)
       = Some (lit ''lunch?'', sessionId idle_state)
   \<and> messages (snd (sendMessage_begin (render idle_state) (lit ''lunch?'') stamp_b
        pending_state))
       = [user_message (lit ''hours?'') stamp_a, user_message (lit ''lunch?'') stamp_b]
   \<and> sendMessage_begin (render idle_state) (lit ''lunch?'') stamp_b pending_state
       \<noteq> (None, pending_state)"
  by (simp add: sendMessage_begin_accepted sample_trims render_def idle_state_fields
      pending_state_def)

text \<open>
  C2, amended. When the busy flag captured by the callback is set, or the text is empty
  after trimming, or the captured session id is empty, \<^verbatim>\<open>sendMessage\<close> returns at its
  guard: no call to the gateway is made and the state (log, session id, sources, error
  flag, busy flag) is returned as it was, whatever the gateway would have answered. For the
  callback of the current render the captured values are those of the state, so a send
  through it in a busy state, or one without session id, is such a no-op.
\<close>

theorem send_guard_noop:
  assumes "cap_isLoading c \<or> trim msg = [] \<or> cap_sessionId c = []"
  shows "sendMessage_begin c msg st1 s = (None, s) \<and> sendMessage c gw msg st1 st2 s = s
    \<and> (isLoading s \<or> trim msg = [] \<or> sessionId s = []
         \<longrightarrow> sendMessage_begin (render s) msg st1 s = (None, s)
             \<and> sendMessage (render s) gw msg st1 st2 s = s)"
  using assms by (auto simp: sendMessage_def sendMessage_begin_guarded render_def)

theorem send_guard_noop_witness:
  "cap_isLoading (render busy_state) \<and> isLoading busy_state
   \<and> sendMessage_begin (render busy_state) (lit ''hours?'') stamp_a busy_state
       = (None, busy_state)
   \<and> sendMessage (render busy_state) (\<lambda>msg sid. Inr hours_reply) (lit ''hours?'') stamp_a
        stamp_b busy_state = busy_state"
proof -
  have b: "cap_isLoading (render busy_state)" "isLoading busy_state"
    by (simp_all add: busy_state_def render_def)
  then have h: "cap_isLoading (render busy_state) \<or> trim (lit ''hours?'') = []
                  \<or> cap_sessionId (render busy_state) = []"
    by simp
  from send_guard_noop [OF h] b show ?thesis
    by blast
qed

text \<open>
  C3. An accepted send whose gateway call fails with message \<open>E\<close> changes the state in
  exactly this way: the error flag holds \<open>E\<close>, the log gains the user message and then one
  assistant message whose content is the fixed apology and whose \<^verbatim>\<open>isError\<close> is true, and
  the busy flag is false. Sources and session id are as before.
\<close>

theorem send_gateway_failure:
  assumes "trim msg \<noteq> []" and "\<not> cap_isLoading c" and "cap_sessionId c \<noteq> []"
    and "gw msg (cap_sessionId c) = Inl E"
  shows "sendMessage c gw msg st1 st2 s
           = s\<lparr>error := Some E,
               messages := messages s @ [user_message msg st1, apology_message st2],
               isLoading := False\<rparr>
    \<and> sources (sendMessage c gw msg st1 st2 s) = sources s
    \<and> content (apology_message st2) = apology
    \<and> isError (apology_message st2) = Some True
    \<and> msg_role (apology_message st2) = Assistant
    \<and> content (user_message msg st1) = msg \<and> msg_role (user_message msg st1) = User"
  using assms
  by (simp add: sendMessage_def sendMessage_begin_accepted sendMessage_resume_rejected
      apology_message_def user_message_def newMessage_def error_metadata_def)

theorem send_gateway_failure_witness:
  "trim (lit ''bad input'') \<noteq> [] \<and> \<not> cap_isLoading (render idle_state)
   \<and> cap_sessionId (render idle_state) \<noteq> []
   \<and> sendMessage (render idle_state) (\<lambda>msg sid. Inl (lit ''Guardrail violation''))
         (lit ''bad input'') stamp_a stamp_b idle_state
       = idle_state\<lparr>error := Some (lit ''Guardrail violation''),
           messages := [user_message (lit ''bad input'') stamp_a, apology_message stamp_b]\<rparr>
   \<and> sources (sendMessage (render idle_state) (\<lambda>msg sid. Inl (lit ''Guardrail violation''))
         (lit ''bad input'') stamp_a stamp_b idle_state) = [calendar]
   \<and> content (apology_message stamp_b) \<noteq> lit ''Guardrail violation''"
proof -
  have h1: "trim (lit ''bad input'') \<noteq> []"
    by (simp add: sample_trims)
  have h2: "\<not> cap_isLoading (render idle_state)"
    by (simp add: render_def idle_state_fields)
  have h3: "cap_sessionId (render idle_state) \<noteq> []"
    by (simp add: render_def idle_state_fields)
  have h4: "(\<lambda>msg sid. Inl (lit ''Guardrail violation'')) (lit ''bad input'')
              (cap_sessionId (render idle_state))
            = (Inl (lit ''Guardrail violation'') :: jsstring + payload)"
    by simp
  have "apology \<noteq> lit ''Guardrail violation''"
    by (simp add: apology_def lit_eq_iff)
  with send_gateway_failure [where gw = "\<lambda>msg sid. Inl (lit ''Guardrail violation'')",
      OF h1 h2 h3 h4, of stamp_a stamp_b idle_state] h1 h2 h3
  show ?thesis
    by (simp add: idle_state_def initial_state_def)
qed

text \<open>
  C4. \<^verbatim>\<open>getAverageResponseTime\<close> selects the assistant messages by the truthiness of
  \<^verbatim>\<open>responseTime\<close>, so a message that carries the response time \<open>0\<close> is left out of both
  the sum and the count. On a log whose two assistant messages carry \<open>0\<close> and \<open>4\<close> it
  returns \<open>4\<close>, where the mean over the carried response times is \<open>2\<close>.
\<close>

theorem average_leaves_out_zero:
  "getAverageResponseTime zero_and_four = 4 \<and> spec_averageResponseTime zero_and_four = 2
   \<and> carried_responseTimes (messages zero_and_four) = [0, 4]"
  by (simp add: getAverageResponseTime_def spec_averageResponseTime_def
      carried_responseTimes_def zero_and_four_def idle_state_def initial_state_def
      user_message_def reply_message_def reply_metadata_def newMessage_def hours_reply_def
      no_metadata_def truthy_num_def)

text \<open>
  C5. An accepted send whose gateway call resolves with a successful reply \<open>p\<close> appends the
  user message and then one assistant message carrying the reply's text, response time and
  sources, and sets the current sources to exactly the reply's sources, or to the empty
  list when the reply has none. The previous sources do not enter the result.
\<close>

theorem send_gateway_success:
  assumes "trim msg \<noteq> []" and "\<not> cap_isLoading c" and "cap_sessionId c \<noteq> []"
    and "gw msg (cap_sessionId c) = Inr p" and "resp_success p"
  shows "sendMessage c gw msg st1 st2 s
           = s\<lparr>error := None,
               messages := messages s @ [user_message msg st1, reply_message p st2],
               sources := (case resp_sources p of None \<Rightarrow> [] | Some S \<Rightarrow> S),
               isLoading := False\<rparr>
    \<and> sources (sendMessage c gw msg st1 st2 s)
        = (case resp_sources p of None \<Rightarrow> [] | Some S \<Rightarrow> S)
    \<and> msg_role (reply_message p st2) = Assistant
    \<and> content (reply_message p st2) = resp_response p
    \<and> responseTime (reply_message p st2) = resp_responseTime p
    \<and> msg_sources (reply_message p st2)
        = Some (case resp_sources p of None \<Rightarrow> [] | Some S \<Rightarrow> S)
    \<and> isError (reply_message p st2) = None"
  using assms
  by (simp add: sendMessage_def sendMessage_begin_accepted sendMessage_resume_success
      reply_message_def reply_metadata_def newMessage_def or_empty_def)

theorem send_gateway_success_witness:
  "trim (lit ''hours?'') \<noteq> [] \<and> \<not> cap_isLoading (render idle_state)
   \<and> cap_sessionId (render idle_state) \<noteq> []
   \<and> resp_success hours_reply
   \<and> sources idle_state = [calendar]
   \<and> sources (sendMessage (render idle_state) (\<lambda>msg sid. Inr hours_reply) (lit ''hours?'')
        stamp_a stamp_b idle_state) = [handbook]
   \<and> messages (sendMessage (render idle_state) (\<lambda>msg sid. Inr hours_reply) (lit ''hours?'')
        stamp_a stamp_b idle_state)
       = [user_message (lit ''hours?'') stamp_a, reply_message hours_reply stamp_b]"
proof -
  have h1: "trim (lit ''hours?'') \<noteq> []"
    by (simp add: sample_trims)
  have h2: "\<not> cap_isLoading (render idle_state)"
    by (simp add: render_def idle_state_fields)
  have h3: "cap_sessionId (render idle_state) \<noteq> []"
    by (simp add: render_def idle_state_fields)
  have h4: "(\<lambda>msg sid. Inr hours_reply) (lit ''hours?'') (cap_sessionId (render idle_state))
              = (Inr hours_reply :: jsstring + payload)"
    by simp
  have h5: "resp_success hours_reply"
    by (simp add: hours_reply_def)
  have s: "resp_sources hours_reply = Some [handbook]"
    by (simp add: hours_reply_def)
  from send_gateway_success [where gw = "\<lambda>msg sid. Inr hours_reply",
      OF h1 h2 h3 h4 h5, of stamp_a stamp_b idle_state] h1 h2 h3 h5
  show ?thesis
    by (simp add: s idle_state_def initial_state_def)
qed

text \<open>
  C6, as stated, fails: the session id is the decimal rendering of the clock reading, so a
  \<^verbatim>\<open>clearChat\<close> at the reading that produced the current id leaves the id as it was.
\<close>

theorem clearChat_same_reading_counterexample:
  "messages (initial_state 1700000000000) = []
   \<and> sessionId (clearChat 1700000000000 (initial_state 1700000000000))
       = sessionId (initial_state 1700000000000)"
  by (simp add: clearChat_def initial_state_def)

text \<open>
  C6, amended. \<^verbatim>\<open>clearChat\<close> at clock reading \<open>now\<close> yields an empty log, empty sources, a
  cleared error flag and the session id generated from \<open>now\<close>, whatever the log was before;
  the busy flag is kept. The new id differs from the one held before whenever that one was
  generated at a different clock reading.
\<close>

theorem clearChat_effect:
  "clearChat now s
     = \<lparr>messages = [], isLoading = isLoading s, error = None, sources = [],
        sessionId = generateSessionId now\<rparr>
   \<and> (sessionId s = generateSessionId t \<and> t \<noteq> now
        \<longrightarrow> sessionId (clearChat now s) \<noteq> sessionId s)"
proof -
  have "generateSessionId now \<noteq> generateSessionId t" if "t \<noteq> now"
    using that toString_inj [of now t] by (auto simp: generateSessionId_def)
  then show ?thesis
    by (auto simp: clearChat_def)
qed

theorem clearChat_effect_witness:
  "sessionId (initial_state 1700000000000) = generateSessionId 1700000000000
   \<and> (1700000000000 :: int) \<noteq> 1700000000001
   \<and> messages (clearChat 1700000000001 (initial_state 1700000000000)) = []
   \<and> sessionId (clearChat 1700000000001 (initial_state 1700000000000))
       \<noteq> sessionId (initial_state 1700000000000)
   \<and> sessionId (clearChat 1700000000001 (initial_state 1700000000000))
       = lit ''1700000000001''"
proof -
  have h: "sessionId (initial_state 1700000000000) = generateSessionId 1700000000000
           \<and> (1700000000000 :: int) \<noteq> 1700000000001"
    by (simp add: initial_state_def)
  have r: "generateSessionId 1700000000001 = lit ''1700000000001''"
    by (simp add: generateSessionId_def toString_def digits.simps digit_unit_def lit_def)
  note eff = clearChat_effect [of 1700000000001 "initial_state 1700000000000" 1700000000000]
  from eff h have d: "sessionId (clearChat 1700000000001 (initial_state 1700000000000))
       \<noteq> sessionId (initial_state 1700000000000)"
    by blast
  from eff have "clearChat 1700000000001 (initial_state 1700000000000)
     = \<lparr>messages = [], isLoading = isLoading (initial_state 1700000000000), error = None,
        sources = [], sessionId = generateSessionId 1700000000001\<rparr>"
    by blast
  then have "messages (clearChat 1700000000001 (initial_state 1700000000000)) = []"
    and "sessionId (clearChat 1700000000001 (initial_state 1700000000000))
       = lit ''1700000000001''"
    by (simp_all add: r)
  with h d show ?thesis
    by blast
qed

text \<open>
  C9, as stated, fails: a reply whose \<^verbatim>\<open>success\<close> is falsy and whose \<^verbatim>\<open>error\<close> field is
  present but empty sets the error flag to the fixed string, not to the field.
\<close>

theorem unsuccessful_empty_error_counterexample:
  "\<not> resp_success empty_error_reply \<and> resp_error empty_error_reply = Some []
   \<and> error (sendMessage (render idle_state) (\<lambda>msg sid. Inr empty_error_reply)
        (lit ''bad input'') stamp_a stamp_b idle_state) = Some (lit ''Failed to get response'')
   \<and> error (sendMessage (render idle_state) (\<lambda>msg sid. Inr empty_error_reply)
        (lit ''bad input'') stamp_a stamp_b idle_state) \<noteq> resp_error empty_error_reply"
proof -
  have "error (sendMessage (render idle_state) (\<lambda>msg sid. Inr empty_error_reply)
        (lit ''bad input'') stamp_a stamp_b idle_state) = Some (lit ''Failed to get response'')"
    by (simp add: sendMessage_def sendMessage_begin_accepted sendMessage_resume_unsuccessful
        sendMessage_resume_rejected empty_error_reply_def or_default_def truthy_str_def
        sample_trims render_def idle_state_fields)
  then show ?thesis
    by (simp add: empty_error_reply_def lit_Nil_iff)
qed

text \<open>
  C9, amended. An accepted send whose gateway call resolves with a reply whose \<^verbatim>\<open>success\<close>
  is falsy is treated as a failure: the error flag is set to the reply's \<^verbatim>\<open>error\<close> field
  if that is present and non-empty and to the fixed string \<^verbatim>\<open>Failed to get response\<close>
  otherwise, the apology message with \<^verbatim>\<open>isError\<close> true is appended after the user message,
  and the sources are left as they were.
\<close>

theorem send_unsuccessful_reply:
  assumes "trim msg \<noteq> []" and "\<not> cap_isLoading c" and "cap_sessionId c \<noteq> []"
    and "gw msg (cap_sessionId c) = Inr p" and "\<not> resp_success p"
  shows "sendMessage c gw msg st1 st2 s
           = s\<lparr>error := Some (case resp_error p of
                               None \<Rightarrow> lit ''Failed to get response''
                             | Some e \<Rightarrow> if e \<noteq> [] then e else lit ''Failed to get response''),
               messages := messages s @ [user_message msg st1, apology_message st2],
               isLoading := False\<rparr>
    \<and> sources (sendMessage c gw msg st1 st2 s) = sources s
    \<and> msg_role (apology_message st2) = Assistant
    \<and> content (apology_message st2) = apology
    \<and> isError (apology_message st2) = Some True"
  using assms
  by (simp add: sendMessage_def sendMessage_begin_accepted sendMessage_resume_unsuccessful
      sendMessage_resume_rejected or_default_def truthy_str_def apology_message_def
      newMessage_def error_metadata_def split: option.splits)

theorem send_unsuccessful_reply_witness:
  "trim (lit ''bad input'') \<noteq> [] \<and> \<not> cap_isLoading (render idle_state)
   \<and> cap_sessionId (render idle_state) \<noteq> []
   \<and> \<not> resp_success guardrail_reply
   \<and> sendMessage (render idle_state) (\<lambda>msg sid. Inr guardrail_reply) (lit ''bad input'')
        stamp_a stamp_b idle_state
       = idle_state\<lparr>error := Some (lit ''Guardrail violation''),
           messages := [user_message (lit ''bad input'') stamp_a, apology_message stamp_b]\<rparr>"
proof -
  have h1: "trim (lit ''bad input'') \<noteq> []"
    by (simp add: sample_trims)
  have h2: "\<not> cap_isLoading (render idle_state)"
    by (simp add: render_def idle_state_fields)
  have h3: "cap_sessionId (render idle_state) \<noteq> []"
    by (simp add: render_def idle_state_fields)
  have h4: "(\<lambda>msg sid. Inr guardrail_reply) (lit ''bad input'')
              (cap_sessionId (render idle_state)) = (Inr guardrail_reply :: jsstring + payload)"
    by simp
  have h5: "\<not> resp_success guardrail_reply"
    by (simp add: guardrail_reply_def empty_error_reply_def)
  have e: "resp_error guardrail_reply = Some (lit ''Guardrail violation'')"
    by (simp add: guardrail_reply_def)
  from send_unsuccessful_reply [where gw = "\<lambda>msg sid. Inr guardrail_reply",
      OF h1 h2 h3 h4 h5, of stamp_a stamp_b idle_state] h1 h2 h3 h5
  show ?thesis
    by (simp add: e lit_Nil_iff idle_state_def initial_state_def)
qed

text \<open>
  C10, as stated, fails in one point: \<^verbatim>\<open>clearChat\<close> does not always replace the session id.
  While a send is pending, a clear at the clock reading that produced the current id
  leaves the id as it was.
\<close>

theorem clear_pending_same_reading_counterexample:
  "sendMessage_begin (render idle_state) (lit ''hours?'') stamp_a idle_state
     = (Some (lit ''hours?'', sessionId idle_state), pending_state)
   \<and> messages (clearChat 1700000000000 pending_state) = []
   \<and> sessionId (clearChat 1700000000000 pending_state) = sessionId pending_state"
proof -
  have "sendMessage_begin (render idle_state) (lit ''hours?'') stamp_a idle_state
     = (Some (lit ''hours?'', sessionId idle_state), pending_state)"
    by (simp add: sendMessage_begin_accepted sample_trims render_def idle_state_fields
        pending_state_def)
  moreover have "sessionId (clearChat 1700000000000 pending_state) = sessionId pending_state"
    by (simp add: clearChat_def pending_state_def idle_state_sessionId)
  ultimately show ?thesis
    by (simp add: clearChat_def)
qed

text \<open>
  C10, amended. While a send awaits its gateway result, \<^verbatim>\<open>clearChat\<close> empties the log and
  sets the session id generated from the clock reading at the call, which differs from the
  id held before whenever that one was generated at a different reading; it leaves the busy
  flag set. When the pending call then settles, its assistant message is appended all the
  same (the reply on success, the apology with \<^verbatim>\<open>isError\<close> otherwise), so the log after the
  clear consists of that one assistant message, and only then is the busy flag reset.
\<close>

theorem clear_while_send_pending:
  assumes "sendMessage_begin c msg st1 s = (Some call, s1)"
  shows "isLoading s1
    \<and> isLoading (clearChat now s1)
    \<and> messages (clearChat now s1) = []
    \<and> sessionId (clearChat now s1) = generateSessionId now
    \<and> (sessionId s1 = generateSessionId t \<and> t \<noteq> now
         \<longrightarrow> sessionId (clearChat now s1) \<noteq> sessionId s1)
    \<and> (\<exists>m. messages (sendMessage_resume outcome st2 (clearChat now s1)) = [m]
            \<and> msg_role m = Assistant
            \<and> (case outcome of
                  Inl e \<Rightarrow> content m = apology \<and> isError m = Some True
                | Inr p \<Rightarrow>
                    if resp_success p then content m = resp_response p \<and> isError m = None
                    else content m = apology \<and> isError m = Some True))
    \<and> \<not> isLoading (sendMessage_resume outcome st2 (clearChat now s1))"
proof -
  from assms have busy: "isLoading s1"
    by (auto simp: sendMessage_begin_def Let_def split: if_splits)
  have empty: "messages (clearChat now s1) = []"
    by (simp add: clearChat_def)
  have differs: "sessionId (clearChat now s1) \<noteq> sessionId s1"
    if "sessionId s1 = generateSessionId t" "t \<noteq> now"
    using that toString_inj [of now t] by (auto simp: clearChat_def generateSessionId_def)
  have appended: "\<exists>m. messages (sendMessage_resume outcome st2 (clearChat now s1)) = [m]
            \<and> msg_role m = Assistant
            \<and> (case outcome of
                  Inl e \<Rightarrow> content m = apology \<and> isError m = Some True
                | Inr p \<Rightarrow>
                    if resp_success p then content m = resp_response p \<and> isError m = None
                    else content m = apology \<and> isError m = Some True)"
  proof (cases outcome)
    case (Inl e)
    then show ?thesis
      by (simp add: sendMessage_resume_rejected empty apology_message_fields)
  next
    case (Inr p)
    then show ?thesis
      by (cases "resp_success p")
        (simp_all add: sendMessage_resume_success sendMessage_resume_unsuccessful
          sendMessage_resume_rejected empty reply_message_fields apology_message_fields)
  qed
  from busy empty differs appended show ?thesis
    by (simp add: clearChat_def sendMessage_resume_idle)
qed

theorem clear_while_send_pending_witness:
  "sendMessage_begin (render idle_state) (lit ''hours?'') stamp_a idle_state
     = (Some (lit ''hours?'', sessionId idle_state), pending_state)
   \<and> sessionId pending_state = generateSessionId 1700000000000
   \<and> (1700000000000 :: int) \<noteq> 1700000001000
   \<and> isLoading (clearChat 1700000001000 pending_state)
   \<and> messages (clearChat 1700000001000 pending_state) = []
   \<and> sessionId (clearChat 1700000001000 pending_state) \<noteq> sessionId pending_state
   \<and> (\<exists>m. messages (sendMessage_resume (Inr hours_reply) stamp_b
              (clearChat 1700000001000 pending_state)) = [m]
          \<and> msg_role m = Assistant \<and> content m = lit ''School starts at 8:15.'')
   \<and> \<not> isLoading (sendMessage_resume (Inr hours_reply) stamp_b
          (clearChat 1700000001000 pending_state))"
proof -
  have b: "sendMessage_begin (render idle_state) (lit ''hours?'') stamp_a idle_state
     = (Some (lit ''hours?'', sessionId idle_state), pending_state)"
    by (simp add: sendMessage_begin_accepted sample_trims render_def idle_state_fields
        pending_state_def)
  have i: "sessionId pending_state = generateSessionId 1700000000000
             \<and> (1700000000000 :: int) \<noteq> 1700000001000"
    by (simp add: pending_state_def idle_state_sessionId)
  have p: "resp_success hours_reply"
    "resp_response hours_reply = lit ''School starts at 8:15.''"
    by (simp_all add: hours_reply_def)
  note T = clear_while_send_pending [OF b, of 1700000001000 1700000000000 "Inr hours_reply"
      stamp_b]
  from T i have d: "sessionId (clearChat 1700000001000 pending_state) \<noteq> sessionId pending_state"
    by blast
  from T p have a: "\<exists>m. messages (sendMessage_resume (Inr hours_reply) stamp_b
              (clearChat 1700000001000 pending_state)) = [m]
          \<and> msg_role m = Assistant \<and> content m = lit ''School starts at 8:15.''"
    by auto
  from T have "isLoading (clearChat 1700000001000 pending_state)"
    and "messages (clearChat 1700000001000 pending_state) = []"
    and "\<not> isLoading (sendMessage_resume (Inr hours_reply) stamp_b
          (clearChat 1700000001000 pending_state))"
    by blast+
  with b i d a show ?thesis
    by blast
qed

section \<open>The gateway client\<close>

text \<open>
  C7, as stated, fails: an error response whose payload has an \<^verbatim>\<open>error\<close> field that is
  present but empty surfaces with the generic label, not with the field.
\<close>

theorem server_error_empty_field_counterexample:
  "err_response empty_error_500 = Some \<lparr>status = 500, data_error = Some []\<rparr>
   \<and> response_interceptor empty_error_500 = lit ''Server error occurred''
   \<and> response_interceptor empty_error_500 \<noteq> []"
  by (simp add: empty_error_500_def server_error_500_def response_interceptor_def
      or_default_def truthy_str_def lit_eq_iff lit_Nil_iff)

text \<open>
  C7, amended. When the exchange fails with the library error \<open>e\<close>,
  \<^verbatim>\<open>chatService.sendMessage\<close> throws an error whose message \<open>m\<close> is fixed by the first of
  these that applies: the timeout code (the request went out with the 30000 ms bound):
  the timeout message; a response with status 401: authentication failed; status 403:
  access forbidden; any other response: the payload's \<^verbatim>\<open>error\<close> field if it is present and
  non-empty, the generic server label otherwise; no response but a request: network error;
  neither: unexpected error.
\<close>

theorem gateway_failure_taxonomy:
  assumes "transport (request_interceptor auth (post_chat h0 msg sid)) = Inl e"
  shows "\<exists>m. chatService_sendMessage h0 auth transport msg sid = Inl m
    \<and> (err_code e = Some (lit ''ECONNABORTED'')
         \<longrightarrow> m = lit ''Request timeout - please try again'')
    \<and> (err_code e \<noteq> Some (lit ''ECONNABORTED'') \<longrightarrow>
         (case err_response e of
            Some r \<Rightarrow>
              (status r = 401 \<longrightarrow> m = lit ''Authentication failed - please sign in again'')
              \<and> (status r = 403 \<longrightarrow> m = lit ''Access forbidden - insufficient permissions'')
              \<and> (status r \<noteq> 401 \<and> status r \<noteq> 403 \<longrightarrow>
                   (case data_error r of
                      Some t \<Rightarrow> (t \<noteq> [] \<longrightarrow> m = t)
                                \<and> (t = [] \<longrightarrow> m = lit ''Server error occurred'')
                    | None \<Rightarrow> m = lit ''Server error occurred''))
          | None \<Rightarrow>
              (err_request e \<longrightarrow> m = lit ''Network error - please check your connection'')
              \<and> (\<not> err_request e \<longrightarrow> m = lit ''An unexpected error occurred'')))
    \<and> cfg_timeout (request_interceptor auth (post_chat h0 msg sid)) = 30000"
  using assms
  by (simp add: chatService_sendMessage_def response_interceptor_def or_default_def
      truthy_str_def request_interceptor_def post_chat_def split: option.splits)

theorem gateway_failure_taxonomy_witness:
  "(\<lambda>c. Inl server_error_500) (request_interceptor signed_in
       (post_chat Map.empty (lit ''bad input'') (lit ''1700000000000'')))
     = (Inl server_error_500 :: axios_error + payload)
   \<and> chatService_sendMessage Map.empty signed_in (\<lambda>c. Inl server_error_500)
       (lit ''bad input'') (lit ''1700000000000'') = Inl (lit ''Guardrail violation'')"
proof -
  have h: "(\<lambda>c. Inl server_error_500) (request_interceptor signed_in
       (post_chat Map.empty (lit ''bad input'') (lit ''1700000000000'')))
     = (Inl server_error_500 :: axios_error + payload)"
    by simp
  have c: "err_code server_error_500 \<noteq> Some (lit ''ECONNABORTED'')"
    by (simp add: server_error_500_def lit_eq_iff)
  have r: "err_response server_error_500
             = Some \<lparr>status = 500, data_error = Some (lit ''Guardrail violation'')\<rparr>"
    by (simp add: server_error_500_def)
  from gateway_failure_taxonomy [where transport = "\<lambda>c. Inl server_error_500", OF h]
  obtain m where "chatService_sendMessage Map.empty signed_in (\<lambda>c. Inl server_error_500)
       (lit ''bad input'') (lit ''1700000000000'') = Inl m"
    and "err_code server_error_500 \<noteq> Some (lit ''ECONNABORTED'') \<longrightarrow>
         (case err_response server_error_500 of
            Some r \<Rightarrow>
              (status r = 401 \<longrightarrow> m = lit ''Authentication failed - please sign in again'')
              \<and> (status r = 403 \<longrightarrow> m = lit ''Access forbidden - insufficient permissions'')
              \<and> (status r \<noteq> 401 \<and> status r \<noteq> 403 \<longrightarrow>
                   (case data_error r of
                      Some t \<Rightarrow> (t \<noteq> [] \<longrightarrow> m = t)
                                \<and> (t = [] \<longrightarrow> m = lit ''Server error occurred'')
                    | None \<Rightarrow> m = lit ''Server error occurred''))
          | None \<Rightarrow>
              (err_request server_error_500
                 \<longrightarrow> m = lit ''Network error - please check your connection'')
              \<and> (\<not> err_request server_error_500
                 \<longrightarrow> m = lit ''An unexpected error occurred''))"
    by blast
  with c r have "chatService_sendMessage Map.empty signed_in (\<lambda>c. Inl server_error_500)
       (lit ''bad input'') (lit ''1700000000000'') = Inl (lit ''Guardrail violation'')"
    by (simp add: lit_Nil_iff)
  with h show ?thesis
    by blast
qed

text \<open>
  C8. A request enters the interceptor without an \<^verbatim>\<open>Authorization\<close> header, as every
  request of the client does. When the identity provider yields a non-empty token the
  request leaves with \<^verbatim>\<open>Authorization: Bearer\<close> followed by that token; when it throws, or
  yields no tokens, no id token or an empty one, the request leaves without an
  \<^verbatim>\<open>Authorization\<close> header. In every case it leaves with the same method, URL, body and
  time bound. For \<^verbatim>\<open>chatService.sendMessage\<close>: the request sent is the \<^verbatim>\<open>POST /chat\<close> with
  the trimmed message and the session id and with exactly that header, and the outcome of
  the call is the outcome of that request: the reply's body when the exchange succeeds, the
  normalised error when it fails. Nothing fails on the client for want of a credential.
\<close>

theorem request_bearer_header:
  assumes "cfg_headers config (lit ''Authorization'') = None"
    and "h0 (lit ''Authorization'') = None"
  shows "cfg_headers (request_interceptor auth config) (lit ''Authorization'')
           = (case credential auth of
                None \<Rightarrow> None
              | Some t \<Rightarrow> Some (lit ''Bearer '' @ t))
    \<and> cfg_headers (request_interceptor auth config) (lit ''Content-Type'')
        = Some (lit ''application/json'')
    \<and> cfg_method (request_interceptor auth config) = cfg_method config
    \<and> cfg_url (request_interceptor auth config) = cfg_url config
    \<and> cfg_data (request_interceptor auth config) = cfg_data config
    \<and> cfg_timeout (request_interceptor auth config) = cfg_timeout config
    \<and> cfg_headers (request_interceptor auth (post_chat h0 msg sid)) (lit ''Authorization'')
        = (case credential auth of
             None \<Rightarrow> None
           | Some t \<Rightarrow> Some (lit ''Bearer '' @ t))
    \<and> cfg_method (request_interceptor auth (post_chat h0 msg sid)) = POST
    \<and> cfg_url (request_interceptor auth (post_chat h0 msg sid)) = lit ''/chat''
    \<and> cfg_data (request_interceptor auth (post_chat h0 msg sid))
        = \<lparr>body_message = trim msg, body_sessionId = sid\<rparr>
    \<and> (\<forall>d. transport (request_interceptor auth (post_chat h0 msg sid)) = Inr d
          \<longrightarrow> chatService_sendMessage h0 auth transport msg sid = Inr d)
    \<and> (\<forall>e. transport (request_interceptor auth (post_chat h0 msg sid)) = Inl e
          \<longrightarrow> chatService_sendMessage h0 auth transport msg sid
               = Inl (response_interceptor e))"
proof -
  have k: "lit ''Content-Type'' \<noteq> lit ''Authorization''"
    by (simp add: lit_eq_iff)
  have auth_header: "cfg_headers (request_interceptor auth cfg) (lit ''Authorization'')
           = (case credential auth of
                None \<Rightarrow> None
              | Some t \<Rightarrow> Some (lit ''Bearer '' @ t))"
    if "cfg_headers cfg (lit ''Authorization'') = None" for cfg :: "'c request_config"
    using that k
    by (simp add: request_interceptor_def getAuthHeaders_def credential_def
        content_type_json_def truthy_ostr_def truthy_str_def map_add_def Let_def
        split: auth_result.splits option.splits)
  have content_type: "cfg_headers (request_interceptor auth config) (lit ''Content-Type'')
        = Some (lit ''application/json'')"
    using k
    by (simp add: request_interceptor_def getAuthHeaders_def content_type_json_def
        map_add_def Let_def split: auth_result.splits)
  have sent: "cfg_headers (post_chat h0 msg sid) (lit ''Authorization'') = None"
    using assms(2) by (simp add: post_chat_def)
  have body: "cfg_method (request_interceptor auth (post_chat h0 msg sid)) = POST"
    "cfg_url (request_interceptor auth (post_chat h0 msg sid)) = lit ''/chat''"
    "cfg_data (request_interceptor auth (post_chat h0 msg sid))
        = \<lparr>body_message = trim msg, body_sessionId = sid\<rparr>"
    by (simp_all add: request_interceptor_def post_chat_def)
  have outcome: "\<forall>d. transport (request_interceptor auth (post_chat h0 msg sid)) = Inr d
          \<longrightarrow> chatService_sendMessage h0 auth transport msg sid = Inr d"
    "\<forall>e. transport (request_interceptor auth (post_chat h0 msg sid)) = Inl e
          \<longrightarrow> chatService_sendMessage h0 auth transport msg sid
               = Inl (response_interceptor e)"
    by (simp_all add: chatService_sendMessage_def)
  from auth_header [OF assms(1)] auth_header [OF sent] content_type body outcome
  show ?thesis
    by (simp add: request_interceptor_def)
qed

theorem request_bearer_header_witness:
  "cfg_headers (post_chat Map.empty (lit ''hours?'') (lit ''1700000000000''))
     (lit ''Authorization'') = None
   \<and> (Map.empty :: headers) (lit ''Authorization'') = None
   \<and> cfg_headers (request_interceptor signed_in
        (post_chat Map.empty (lit ''hours?'') (lit ''1700000000000''))) (lit ''Authorization'')
       = Some (lit ''Bearer eyJhbGciOi'')
   \<and> chatService_sendMessage Map.empty signed_in bearer_server (lit ''hours?'')
        (lit ''1700000000000'') = Inr hours_reply
   \<and> cfg_headers (request_interceptor AuthThrows
        (post_chat Map.empty (lit ''hours?'') (lit ''1700000000000''))) (lit ''Authorization'')
       = None
   \<and> chatService_sendMessage Map.empty AuthThrows open_server (lit ''hours?'')
        (lit ''1700000000000'') = Inr lunch_reply
   \<and> chatService_sendMessage Map.empty AuthThrows bearer_server (lit ''hours?'')
        (lit ''1700000000000'') = Inl (lit ''Authentication failed - please sign in again'')"
proof -
  let ?cfg = "post_chat Map.empty (lit ''hours?'') (lit ''1700000000000'')"
  have h: "cfg_headers ?cfg (lit ''Authorization'') = None"
    by (simp add: post_chat_def)
  have h0: "(Map.empty :: headers) (lit ''Authorization'') = None"
    by simp
  have c1: "credential signed_in = Some (lit ''eyJhbGciOi'')"
    by (simp add: credential_def signed_in_def lit_Nil_iff)
  have c2: "credential AuthThrows = None"
    by (simp add: credential_def)
  have l: "lit ''Bearer '' @ lit ''eyJhbGciOi'' = lit ''Bearer eyJhbGciOi''"
    by (simp add: lit_def)
  have u: "response_interceptor unauthorized_401
             = lit ''Authentication failed - please sign in again''"
    by (simp add: response_interceptor_def unauthorized_401_def lit_eq_iff)
  note S = request_bearer_header [OF h h0, of signed_in "lit ''hours?''" "lit ''1700000000000''"
      bearer_server]
  note O = request_bearer_header [OF h h0, of AuthThrows "lit ''hours?''" "lit ''1700000000000''"
      open_server]
  note B = request_bearer_header [OF h h0, of AuthThrows "lit ''hours?''" "lit ''1700000000000''"
      bearer_server]
  from S have s1: "cfg_headers (request_interceptor signed_in ?cfg) (lit ''Authorization'')
       = Some (lit ''Bearer eyJhbGciOi'')"
    by (simp add: c1 l)
  then have "bearer_server (request_interceptor signed_in ?cfg) = Inr hours_reply"
    by (simp add: bearer_server_def)
  with S have s2: "chatService_sendMessage Map.empty signed_in bearer_server (lit ''hours?'')
        (lit ''1700000000000'') = Inr hours_reply"
    by blast
  from O have o1: "cfg_headers (request_interceptor AuthThrows ?cfg) (lit ''Authorization'')
       = None"
    by (simp add: c2)
  then have "open_server (request_interceptor AuthThrows ?cfg) = Inr lunch_reply"
    by (simp add: open_server_def)
  with O have o2: "chatService_sendMessage Map.empty AuthThrows open_server (lit ''hours?'')
        (lit ''1700000000000'') = Inr lunch_reply"
    by blast
  from o1 have "bearer_server (request_interceptor AuthThrows ?cfg) = Inl unauthorized_401"
    by (simp add: bearer_server_def)
  with B have "chatService_sendMessage Map.empty AuthThrows bearer_server (lit ''hours?'')
        (lit ''1700000000000'') = Inl (response_interceptor unauthorized_401)"
    by blast
  with h h0 s1 s2 o1 o2 show ?thesis
    by (simp add: u)
qed

end
